theory Spec2Isabelle
  imports Complex_Main
begin

section \<open>ncjoin: joining NetCDF trajectory files\<close>

text \<open>
  A shallow embedding of \<^verbatim>\<open>src/ncjoin.py\<close>. Numbers are exact reals (Python floats
  and NumPy arrays without rounding, NaN or infinities); integer indices are \<^typ>\<open>int\<close>
  wherever the source lets them become negative. Every exception the source can raise in
  the modelled paths is a value of \<open>error\<close>, returned as \<open>Inl\<close>.
\<close>

subsection \<open>NumPy values and Python exceptions\<close>

text \<open>
  \<open>arr\<close> is a NumPy array as the overlap test sees it: a 0-d array (\<open>test_tol.shape == ()\<close>)
  or a 1-d array. A frame of the test variable is a 1-d array, \<^typ>\<open>real list\<close>.
\<close>

datatype arr = Scalar real | Vector "real list"

text \<open>
  A formatted message is kept as its pieces, in order; the values substituted for
  \<^verbatim>\<open>{}\<close> and \<^verbatim>\<open>%s\<close> stay values.
\<close>

datatype piece = Str string | Val arr

datatype error =
    RuntimeError "piece list"
  | NameError string
  | IndexError
  | KeyError string
  | ValueError
  | OverflowError

text \<open>\<^verbatim>\<open>xs[i]\<close> for a Python integer \<open>i\<close>: a negative index counts from the end.\<close>

definition py_get :: "'a list \<Rightarrow> int \<Rightarrow> error + 'a" where
  "py_get xs i =
     (let j = (if i < 0 then i + int (length xs) else i)
      in if j < 0 \<or> int (length xs) \<le> j then Inl IndexError else Inr (xs ! nat j))"

text \<open>\<^verbatim>\<open>xs[start:stop]\<close> for integers \<open>start\<close> and \<open>stop\<close>.\<close>

definition clip :: "int \<Rightarrow> int \<Rightarrow> int" where
  "clip i n = (if i < 0 then max (i + n) 0 else min i n)"

definition py_slice :: "int \<Rightarrow> int \<Rightarrow> 'a list \<Rightarrow> 'a list" where
  "py_slice start stop xs =
     (let n = int (length xs); lo = clip start n; hi = clip stop n
      in take (nat (hi - lo)) (drop (nat lo) xs))"

text \<open>\<^verbatim>\<open>int(x)\<close> of a float truncates towards zero.\<close>

definition py_int :: "real \<Rightarrow> int" where
  "py_int x = (if x < 0 then \<lceil>x\<rceil> else \<lfloor>x\<rfloor>)"

text \<open>\<^verbatim>\<open>np.min\<close>, \<^verbatim>\<open>np.max\<close> and \<^verbatim>\<open>np.argmin\<close> (the first index of the least element).\<close>

fun amin :: "real list \<Rightarrow> real" where
  "amin (x # xs) = fold min xs x"

fun amax :: "real list \<Rightarrow> real" where
  "amax (x # xs) = fold max xs x"

definition np_max :: "real list \<Rightarrow> error + real" where
  "np_max xs = (if xs = [] then Inl ValueError else Inr (amax xs))"

fun argmin :: "real list \<Rightarrow> nat" where
  "argmin [] = 0"
| "argmin (x # xs) = (if list_all (\<lambda>y. x \<le> y) xs then 0 else Suc (argmin xs))"

text \<open>Elementwise operations with broadcasting of a 0-d operand.\<close>

fun broadcast2 :: "(real \<Rightarrow> real \<Rightarrow> real) \<Rightarrow> arr \<Rightarrow> arr \<Rightarrow> arr" where
  "broadcast2 f (Scalar a) (Scalar b) = Scalar (f a b)"
| "broadcast2 f (Scalar a) (Vector bs) = Vector (map (f a) bs)"
| "broadcast2 f (Vector as) (Scalar b) = Vector (map (\<lambda>a. f a b) as)"
| "broadcast2 f (Vector as) (Vector bs) = Vector (map2 f as bs)"

definition np_maximum :: "arr \<Rightarrow> arr \<Rightarrow> arr" where
  "np_maximum = broadcast2 max"

definition np_minimum :: "arr \<Rightarrow> arr \<Rightarrow> arr" where
  "np_minimum = broadcast2 min"

fun zeros_like :: "arr \<Rightarrow> arr" where
  "zeros_like (Scalar a) = Scalar 0"
| "zeros_like (Vector as) = Vector (map (\<lambda>a. 0) as)"

text \<open>\<^verbatim>\<open>np.any(a > b)\<close>.\<close>

fun any_gt :: "arr \<Rightarrow> arr \<Rightarrow> bool" where
  "any_gt (Scalar a) (Scalar b) = (b < a)"
| "any_gt (Scalar a) (Vector bs) = list_ex (\<lambda>b. b < a) bs"
| "any_gt (Vector as) (Scalar b) = list_ex (\<lambda>a. b < a) as"
| "any_gt (Vector as) (Vector bs) = list_ex (\<lambda>(a, b). b < a) (zip as bs)"

subsection \<open>get\_nearest\_indices\<close>

text \<open>
  The loop \<^verbatim>\<open>for i in range(n, m)\<close> with its two variables \<open>r\<close> and \<open>last_j\<close>.
\<close>

fun nearest_loop :: "real list \<Rightarrow> real \<Rightarrow> int list \<Rightarrow> nat list \<Rightarrow> int \<Rightarrow> nat list" where
  "nearest_loop time every [] r last_j = r"
| "nearest_loop time every (i # is) r last_j =
     (let difftime = map (\<lambda>t. \<bar>t - of_int i * every\<bar>) time;
          j = argmin difftime
      in if difftime ! j < 1 \<and> int j \<noteq> last_j
         then nearest_loop time every is (r @ [j]) (int j)
         else nearest_loop time every is r last_j)"

text \<open>
  \<^verbatim>\<open>np.min\<close> of an empty array raises ValueError. For \<open>every = 0\<close> the quotient is
  NaN or infinite, and \<^verbatim>\<open>int\<close> raises ValueError or OverflowError.
\<close>

definition get_nearest_indices :: "real list \<Rightarrow> real \<Rightarrow> error + nat list" where
  "get_nearest_indices time every =
     (if time = [] then Inl ValueError
      else if every = 0 then Inl (if amin time = 0 then ValueError else OverflowError)
      else let n = py_int (amin time / every);
               m = py_int (amax time / every) + 1
           in Inr (nearest_loop time every [n..m - 1] [] (- 1)))"

subsection \<open>strip\_fn and fix\_time\<close>

definition strip_fn :: "string \<Rightarrow> string" where
  "strip_fn fn = (if length fn > 0 \<and> fn ! 0 = CHR ''+'' then drop 1 fn else fn)"

definition fix_time :: "real list \<Rightarrow> real list" where
  "fix_time time =
     (if length time > 2 \<and> \<bar>time ! 2 - time ! 1 - (time ! 1 - time ! 0)\<bar> > 1 / 1000
      then time[0 := time ! 1 - (time ! 2 - time ! 1)]
      else time)"

subsection \<open>open\_trajs: the overlap search\<close>

text \<open>
  The residual of two frames. Before the backward scan (source line 132) it is the
  elementwise \<^verbatim>\<open>np.abs(test1[last1] - test2[first2])\<close>, reduced by \<^verbatim>\<open>np.max\<close> only for a
  0-d tolerance; inside the scan (line 142) \<^verbatim>\<open>np.max\<close> is applied whatever the tolerance
  is. Frames of different length, a frame whose length differs from that of a 1-d
  tolerance, and \<^verbatim>\<open>np.max\<close> of an empty frame raise ValueError (broadcasting of
  length-one axes is not modelled).
\<close>

definition absdiff :: "real list \<Rightarrow> real list \<Rightarrow> error + real list" where
  "absdiff a b =
     (if length a = length b then Inr (map2 (\<lambda>x y. \<bar>x - y\<bar>) a b) else Inl ValueError)"

definition maxdiff_first :: "arr \<Rightarrow> real list \<Rightarrow> real list \<Rightarrow> error + arr" where
  "maxdiff_first test_tol a b =
     (case absdiff a b of
        Inl e \<Rightarrow> Inl e
      | Inr d \<Rightarrow>
          (case test_tol of
             Scalar t \<Rightarrow> (case np_max d of Inl e \<Rightarrow> Inl e | Inr m \<Rightarrow> Inr (Scalar m))
           | Vector ts \<Rightarrow> if length ts = length d then Inr (Vector d) else Inl ValueError))"

definition maxdiff_scan :: "real list \<Rightarrow> real list \<Rightarrow> error + arr" where
  "maxdiff_scan a b =
     (case absdiff a b of
        Inl e \<Rightarrow> Inl e
      | Inr d \<Rightarrow> (case np_max d of Inl e \<Rightarrow> Inl e | Inr m \<Rightarrow> Inr (Scalar m)))"

text \<open>
  \<^verbatim>\<open>np.max(np.abs(a - b))\<close> as a number, for two frames of one length that are not empty:
  the residual of the pair.
\<close>

definition residual :: "real list \<Rightarrow> real list \<Rightarrow> real" where
  "residual a b = amax (map2 (\<lambda>x y. \<bar>x - y\<bar>) a b)"

text \<open>
  The inner \<^verbatim>\<open>while last1 >= 0 and np.any(maxdiff > test_tol)\<close>. After \<open>last1 -= 1\<close> the
  frame read is \<^verbatim>\<open>test1[last1]\<close>, which for \<open>last1 = -1\<close> is the last frame of the file.
  The result is \<open>(last1, maxdiff, max_maxdiff, min_maxdiff)\<close>.
\<close>

function backward_scan ::
  "real list list \<Rightarrow> real list \<Rightarrow> arr \<Rightarrow> int \<Rightarrow> arr \<Rightarrow> arr \<Rightarrow> arr \<Rightarrow> error + (int \<times> arr \<times> arr \<times> arr)"
where
  "backward_scan test1 frame2 test_tol last1 maxdiff max_maxdiff min_maxdiff =
     (if 0 \<le> last1 \<and> any_gt maxdiff test_tol
      then (case py_get test1 (last1 - 1) of
              Inl e \<Rightarrow> Inl e
            | Inr frame1 \<Rightarrow>
                (case maxdiff_scan frame1 frame2 of
                   Inl e \<Rightarrow> Inl e
                 | Inr d \<Rightarrow>
                     backward_scan test1 frame2 test_tol (last1 - 1) d
                       (np_maximum maxdiff max_maxdiff) (np_minimum maxdiff min_maxdiff)))
      else Inr (last1, maxdiff, max_maxdiff, min_maxdiff))"
  by pat_completeness auto
termination
  by (relation "measure (\<lambda>(test1, frame2, test_tol, last1, rest). nat (last1 + 1))") auto

declare backward_scan.simps [simp del]

text \<open>
  The outer \<^verbatim>\<open>while first2 < min(test2.shape[0]-1, 5) and np.any(maxdiff > test_tol)\<close>.
  \<open>last1\<close> is \<open>None\<close> while the Python variable is unbound. The result is
  \<open>(first2, last1, max_maxdiff, min_maxdiff)\<close>.
\<close>

function forward_search ::
  "real list list \<Rightarrow> real list list \<Rightarrow> arr \<Rightarrow> int \<Rightarrow> int option \<Rightarrow> arr \<Rightarrow> arr \<Rightarrow> arr
     \<Rightarrow> error + (int \<times> int option \<times> arr \<times> arr)"
where
  "forward_search test1 test2 test_tol first2 last1 maxdiff max_maxdiff min_maxdiff =
     (if first2 < min (int (length test2) - 1) 5 \<and> any_gt maxdiff test_tol
      then (case py_get test1 (int (length test1) - 1) of
              Inl e \<Rightarrow> Inl e
            | Inr frame1 \<Rightarrow>
          (case py_get test2 (first2 + 1) of
              Inl e \<Rightarrow> Inl e
            | Inr frame2 \<Rightarrow>
          (case maxdiff_first test_tol frame1 frame2 of
              Inl e \<Rightarrow> Inl e
            | Inr d0 \<Rightarrow>
          (case backward_scan test1 frame2 test_tol (int (length test1) - 1) d0
                  max_maxdiff min_maxdiff of
              Inl e \<Rightarrow> Inl e
            | Inr (l, d, mx, mn) \<Rightarrow>
                forward_search test1 test2 test_tol (first2 + 1) (Some l) d
                  (np_maximum d mx) (np_minimum d mn)))))
      else Inr (first2, last1, max_maxdiff, min_maxdiff))"
  by pat_completeness auto
termination
  by (relation "measure (\<lambda>(test1, test2, test_tol, first2, rest). nat (5 - first2))") auto

declare forward_search.simps [simp del]

text \<open>
  Source lines 107--108 and 124--146: the search for one pair of files, started with
  \<open>maxdiff = test_tol + 1.0\<close> and \<open>first2 = -1\<close>. \<open>last1\<close> is what the variable held before
  (the value left by the previous pair, if any).
\<close>

definition find_overlap ::
  "arr \<Rightarrow> real list list \<Rightarrow> real list list \<Rightarrow> int option
     \<Rightarrow> error + (int \<times> int option \<times> arr \<times> arr)"
where
  "find_overlap test_tol test1 test2 last1 =
     forward_search test1 test2 test_tol (- 1) last1
       (broadcast2 (+) test_tol (Scalar 1))
       (zeros_like test_tol)
       (broadcast2 (+) test_tol (Scalar 1000000000000))"

subsection \<open>open\_trajs: sequencing the files\<close>

text \<open>
  What \<^verbatim>\<open>open_trajs\<close> reads of one input file: its name as given on the command line
  (with the \<^verbatim>\<open>+\<close> prefix, if any), the Dataset object opened for it (distinct objects are
  distinct values of \<open>'d\<close>), the frames of \<^verbatim>\<open>variables[test_var]\<close> (already restricted to
  \<^verbatim>\<open>[:, test_index]\<close> when the option names an index), and \<^verbatim>\<open>variables[time_var]\<close> when
  the file has it.
\<close>

record 'd traj =
  t_fn :: string
  t_data :: 'd
  t_test :: "real list list"
  t_time :: "real list option"

text \<open>The tuple \<open>(fn, data, data_slice, time)\<close> of \<^verbatim>\<open>filtered_data_f\<close>.\<close>

type_synonym 'd entry = "string \<times> 'd \<times> (int \<times> int) \<times> real list"

text \<open>
  \<open>test1\<close> and \<open>test2\<close> of lines 115--119: \<^verbatim>\<open>fix_time\<close> is applied when the test variable is
  the time variable, whose frames are single numbers.
\<close>

definition test_of :: "bool \<Rightarrow> 'd traj \<Rightarrow> real list list" where
  "test_of test_is_time s =
     (if test_is_time then map (\<lambda>t. [t]) (fix_time (concat (t_test s))) else t_test s)"

text \<open>Lines 158--161 and 183--186: the time variable, or the frame numbers.\<close>

definition time_of :: "'d traj \<Rightarrow> real list" where
  "time_of s =
     (case t_time s of Some ts \<Rightarrow> ts | None \<Rightarrow> map real [0..<length (t_test s)])"

text \<open>Lines 168--171 and 192--195: \<^verbatim>\<open>time += last_time - time[0]\<close>.\<close>

definition add_offset :: "real option \<Rightarrow> real list \<Rightarrow> error + real list" where
  "add_offset last_time time =
     (case last_time of
        None \<Rightarrow> Inr time
      | Some lt \<Rightarrow>
          if time = [] then Inl IndexError
          else Inr (map (\<lambda>t. t + (lt - time ! 0)) time))"

text \<open>
  Lines 175--178. Without a time variable \<open>time\<close> is a view of the \<^verbatim>\<open>np.arange\<close> array
  \<open>time1\<close>, so the in-place addition above has changed \<open>time1\<close> as well, and \<^verbatim>\<open>time1[-1]\<close>
  is \<^verbatim>\<open>time[-1]\<close> in the first branch (the slice runs to the end there); with a time
  variable \<open>time\<close> is a copy and \<^verbatim>\<open>time1[-1]\<close> is the value in the file.
\<close>

definition next_last_time :: "'d traj \<Rightarrow> int \<Rightarrow> real list \<Rightarrow> error + real" where
  "next_last_time s1 last1 time =
     (if int (length (time_of s1)) \<le> last1
      then if length time < 2 then Inl IndexError
           else Inr (last time
                  + (time ! (length time - 2)
                      - (case t_time s1 of Some ts \<Rightarrow> last ts | None \<Rightarrow> last time))
                    * of_int (int (length (time_of s1)) - last1 + 1))
      else if time = [] then Inl IndexError else Inr (last time))"

definition not_consecutive :: "string \<Rightarrow> string \<Rightarrow> arr \<Rightarrow> arr \<Rightarrow> error" where
  "not_consecutive fn1 fn2 min_maxdiff max_maxdiff =
     RuntimeError [Str fn1, Str '' and '', Str fn2,
       Str '' are not consecutive. Minimum residual found was '', Val min_maxdiff,
       Str '', maximum residual '', Val max_maxdiff,
       Str ''. It may help to increase *test_tol*.'']"

text \<open>
  Lines 110--146: \<open>first2\<close> and \<open>last1\<close> for the pair, with the residuals. \<^verbatim>\<open>fn2[0]\<close> of an
  empty name raises IndexError.
\<close>

definition overlap ::
  "bool \<Rightarrow> arr \<Rightarrow> 'd traj \<Rightarrow> 'd traj \<Rightarrow> int option
     \<Rightarrow> error + (int \<times> int option \<times> arr \<times> arr)"
where
  "overlap test_is_time test_tol s1 s2 last1 =
     (if t_fn s2 = [] then Inl IndexError
      else if t_fn s2 ! 0 = CHR ''+''
      then Inr (0, Some (int (length (t_test s1))), zeros_like test_tol,
                broadcast2 (+) test_tol (Scalar 1000000000000))
      else find_overlap test_tol (test_of test_is_time s1) (test_of test_is_time s2) last1)"

text \<open>
  One pass of the loop over \<open>i\<close> (lines 102--181). The state is
  \<open>(first1, last1, last_time, filtered_data_f)\<close>.
\<close>

type_synonym 'd seq_state = "int \<times> int option \<times> real option \<times> 'd entry list"

definition pair_step ::
  "bool \<Rightarrow> arr \<Rightarrow> 'd traj \<Rightarrow> 'd traj \<Rightarrow> 'd seq_state \<Rightarrow> error + 'd seq_state"
where
  "pair_step test_is_time test_tol s1 s2 st =
     (case st of (first1, last1_before, last_time, filtered_data_f) \<Rightarrow>
      case overlap test_is_time test_tol s1 s2 last1_before of
        Inl e \<Rightarrow> Inl e
      | Inr (first2, None, max_maxdiff, min_maxdiff) \<Rightarrow> Inl (NameError ''last1'')
      | Inr (first2, Some last1, max_maxdiff, min_maxdiff) \<Rightarrow>
          if last1 < 0
          then Inl (not_consecutive (t_fn s1) (t_fn s2) min_maxdiff max_maxdiff)
          else
            (case add_offset last_time (fix_time (py_slice first1 last1 (time_of s1))) of
               Inl e \<Rightarrow> Inl e
             | Inr time \<Rightarrow>
                 (case next_last_time s1 last1 time of
                    Inl e \<Rightarrow> Inl e
                  | Inr lt \<Rightarrow>
                      Inr (first2, Some last1, Some lt,
                           filtered_data_f @ [(t_fn s1, t_data s1, (first1, last1), time)]))))"

fun pair_loop ::
  "bool \<Rightarrow> arr \<Rightarrow> 'd traj list \<Rightarrow> 'd seq_state \<Rightarrow> error + 'd seq_state"
where
  "pair_loop test_is_time test_tol (s1 # s2 # rest) st =
     (case pair_step test_is_time test_tol s1 s2 st of
        Inl e \<Rightarrow> Inl e
      | Inr st' \<Rightarrow> pair_loop test_is_time test_tol (s2 # rest) st')"
| "pair_loop test_is_time test_tol [s] st = Inr st"
| "pair_loop test_is_time test_tol [] st = Inr st"

text \<open>Lines 183--198: the entry of the last file, whose \<open>time\<close> is not sliced.\<close>

definition last_entry :: "'d traj \<Rightarrow> 'd seq_state \<Rightarrow> error + 'd entry list" where
  "last_entry s2 st =
     (case st of (first1, last1, last_time, filtered_data_f) \<Rightarrow>
      case add_offset last_time (fix_time (time_of s2)) of
        Inl e \<Rightarrow> Inl e
      | Inr time \<Rightarrow>
          Inr (filtered_data_f
               @ [(t_fn s2, t_data s2, (first1, int (length time)), time)]))"

text \<open>\<^verbatim>\<open>data_f[0]\<close> of an empty file list raises IndexError.\<close>

definition open_trajs :: "bool \<Rightarrow> arr \<Rightarrow> 'd traj list \<Rightarrow> error + 'd entry list" where
  "open_trajs test_is_time test_tol trajs =
     (if trajs = [] then Inl IndexError
      else case pair_loop test_is_time test_tol trajs (0, None, None, []) of
             Inl e \<Rightarrow> Inl e
           | Inr st \<Rightarrow> last_entry (last trajs) st)"

subsection \<open>filter\_trajs\<close>

text \<open>Lines 204--208: one tuple \<open>(fn, data, i, time[i])\<close> per frame of the slice.\<close>

definition frames_of :: "'d entry \<Rightarrow> (string \<times> 'd \<times> nat \<times> real) list" where
  "frames_of e =
     (case e of (fn, data, (start, stop), time) \<Rightarrow>
        map (\<lambda>i. (fn, data, i, time ! i)) (py_slice start stop [0..<length time]))"

text \<open>
  Lines 218--233. \<^verbatim>\<open>data is not cur_data\<close> compares the Dataset objects, here the values
  of \<open>'d\<close>.
\<close>

fun consolidate ::
  "(string \<times> 'd \<times> nat \<times> real) list \<Rightarrow> string \<Rightarrow> 'd \<Rightarrow> nat list \<Rightarrow> real list
     \<Rightarrow> (string \<times> 'd \<times> nat list \<times> real list) list
     \<Rightarrow> (string \<times> 'd \<times> nat list \<times> real list) list"
where
  "consolidate [] cur_fn cur_data cur_slice cur_time filtered_idata_f =
     filtered_idata_f @ [(cur_fn, cur_data, cur_slice, cur_time)]"
| "consolidate ((fn, data, i, t) # rest) cur_fn cur_data cur_slice cur_time filtered_idata_f =
     (if data \<noteq> cur_data
      then consolidate rest fn data [i] [t]
             (filtered_idata_f @ [(cur_fn, cur_data, cur_slice, cur_time)])
      else consolidate rest cur_fn cur_data (cur_slice @ [i]) (cur_time @ [t])
             filtered_idata_f)"

definition no_frames_left :: error where
  "no_frames_left = RuntimeError [Str ''No frames left after filtering.'']"

definition filter_trajs ::
  "'d entry list \<Rightarrow> real \<Rightarrow> error + (string \<times> 'd \<times> nat list \<times> real list) list"
where
  "filter_trajs idata_f every =
     (let idata_oframe = concat (map frames_of idata_f)
      in case get_nearest_indices (map (\<lambda>(fn, data, i, t). t) idata_oframe) every of
           Inl e \<Rightarrow> Inl e
         | Inr is \<Rightarrow>
             if is = [] then Inl no_frames_left
             else (case map (\<lambda>i. idata_oframe ! i) is of
                     (cur_fn, cur_data, i0, t0) # rest \<Rightarrow>
                       Inr (consolidate ((cur_fn, cur_data, i0, t0) # rest)
                              cur_fn cur_data [] [] [])))"

subsection \<open>Datasets\<close>

text \<open>
  The part of the netCDF4 interface the copy loop uses. A value read from a variable is
  an n-dimensional array \<open>nd\<close>; \<open>rows var\<close> lists \<^verbatim>\<open>var[0]\<close>, \<^verbatim>\<open>var[1]\<close>, ..., so that
  \<^verbatim>\<open>var.shape[0]\<close> is its length and \<^verbatim>\<open>var[:]\<close> is the whole list. \<open>variables\<close> and
  \<open>dimensions\<close> of a Dataset are ordered dictionaries, kept as association lists; a
  dimension is its length and whether it is unlimited.
\<close>

datatype nd = IntV int | RealV real | Arr "nd list"

record variable =
  dimensions :: "string list"
  dtype :: string
  ncattrs :: "(string \<times> string) list"
  rows :: "nd list"

record dataset =
  ds_dimensions :: "(string \<times> nat \<times> bool) list"
  ds_variables :: "(string \<times> variable) list"

text \<open>
  The output file: the dimensions and variables created so far (a variable with its
  type, dimensions and attributes), and the assignments made to its variables, in order:
  \<^verbatim>\<open>odata.variables[v][k] = d\<close>, \<^verbatim>\<open>odata.variables[v][k:] = time\<close> and
  \<^verbatim>\<open>odata.variables[v][:] = d\<close>.
\<close>

datatype assign =
    AssignFrame string nat nd
  | AssignFrom string nat "real list"
  | AssignAll string "nd list"

text \<open>
  The variable an assignment goes to; the frames at which a list of assignments writes
  a variable \<open>v\<close> frame by frame; and the frames at which it writes a slice.
\<close>

fun assign_var :: "assign \<Rightarrow> string" where
  "assign_var (AssignFrame v k d) = v"
| "assign_var (AssignFrom v k t) = v"
| "assign_var (AssignAll v d) = v"

fun frame_positions :: "string \<Rightarrow> assign list \<Rightarrow> nat list" where
  "frame_positions v [] = []"
| "frame_positions v (AssignFrame u k d # ws) =
     (if u = v then k # frame_positions v ws else frame_positions v ws)"
| "frame_positions v (AssignFrom u k t # ws) = frame_positions v ws"
| "frame_positions v (AssignAll u d # ws) = frame_positions v ws"

fun from_positions :: "assign list \<Rightarrow> nat list" where
  "from_positions [] = []"
| "from_positions (AssignFrame u k d # ws) = from_positions ws"
| "from_positions (AssignFrom u k t # ws) = k # from_positions ws"
| "from_positions (AssignAll u d # ws) = from_positions ws"

record odataset =
  o_dimensions :: "(string \<times> nat option) list"
  o_variables :: "(string \<times> string \<times> string list \<times> (string \<times> string) list) list"
  o_assigns :: "assign list"

definition FRAME_DIM :: string where
  "FRAME_DIM = ''frame''"

definition ATOM_DIM :: string where
  "ATOM_DIM = ''atom''"

text \<open>
  The parsed command line. \<open>test_var\<close> is the name left by lines 86--91 (without an index
  in brackets); \<open>test_tol\<close> is the array of line 93.
\<close>

record arguments =
  every :: "real option"
  test_var :: string
  test_tol :: arr
  netcdf_format :: string
  exclude :: "string option"
  index :: string
  index_offset :: int

subsection \<open>The exclude list\<close>

text \<open>\<^verbatim>\<open>s.split(c)\<close> for a one-character separator.\<close>

fun split :: "char \<Rightarrow> string \<Rightarrow> string list" where
  "split c [] = [[]]"
| "split c (x # xs) =
     (if x = c then [] # split c xs
      else (x # hd (split c xs)) # tl (split c xs))"

text \<open>Lines 315--317.\<close>

definition exclude_list :: "arguments \<Rightarrow> string set" where
  "exclude_list args =
     (case exclude args of
        None \<Rightarrow> set [index args]
      | Some x \<Rightarrow> set [index args] \<union> set (split CHR '','' x))"

subsection \<open>Reordering the atoms of a frame\<close>

fun nd_zeros_like :: "nd \<Rightarrow> nd" where
  "nd_zeros_like (IntV i) = IntV 0"
| "nd_zeros_like (RealV x) = RealV 0"
| "nd_zeros_like (Arr xs) = Arr (map nd_zeros_like xs)"

text \<open>
  \<^verbatim>\<open>index[iframe] + arguments.index_offset\<close>: the identifiers of a frame as integers. An
  array of floats is refused as an index (IndexError).
\<close>

fun int_of :: "nd \<Rightarrow> int option" where
  "int_of (IntV i) = Some i"
| "int_of (RealV x) = None"
| "int_of (Arr xs) = None"

definition ids_of :: "nd \<Rightarrow> error + int list" where
  "ids_of a =
     (case a of
        Arr xs \<Rightarrow> if list_all (\<lambda>x. int_of x \<noteq> None) xs then Inr (map (\<lambda>x. the (int_of x)) xs)
                  else Inl IndexError
      | IntV i \<Rightarrow> Inl IndexError
      | RealV x \<Rightarrow> Inl IndexError)"

text \<open>
  \<^verbatim>\<open>sorted_var_data[idx] = var_data\<close> for an integer array \<open>idx\<close>: row \<open>i\<close> of \<open>var_data\<close>
  is stored at row \<open>idx[i]\<close>, rows in order, a negative index counting from the end. An
  index out of range raises IndexError, arrays of different length ValueError
  (broadcasting of a single row is not modelled).
\<close>

fun scatter :: "int list \<Rightarrow> nd list \<Rightarrow> nd list \<Rightarrow> error + nd list" where
  "scatter [] [] sorted_var_data = Inr sorted_var_data"
| "scatter (i # idx) (v # var_data) sorted_var_data =
     (let n = int (length sorted_var_data); j = (if i < 0 then i + n else i)
      in if j < 0 \<or> n \<le> j then Inl IndexError
         else scatter idx var_data (sorted_var_data[nat j := v]))"
| "scatter [] (v # var_data) sorted_var_data = Inl ValueError"
| "scatter (i # idx) [] sorted_var_data = Inl ValueError"

text \<open>Lines 384--387.\<close>

definition reorder :: "int \<Rightarrow> nd \<Rightarrow> nd \<Rightarrow> error + nd" where
  "reorder offset ids var_data =
     (case ids_of ids of
        Inl e \<Rightarrow> Inl e
      | Inr is \<Rightarrow>
          (case var_data of
             Arr vs \<Rightarrow>
               (case scatter (map (\<lambda>i. i + offset) is) vs (map nd_zeros_like vs) of
                  Inl e \<Rightarrow> Inl e
                | Inr sorted_var_data \<Rightarrow> Inr (Arr sorted_var_data))
           | IntV i \<Rightarrow> Inl IndexError
           | RealV x \<Rightarrow> Inl IndexError))"

subsection \<open>The copy loop\<close>

text \<open>
  \<open>data_slice\<close> of an entry of \<open>idata_f\<close>: the slice made by \<^verbatim>\<open>open_trajs\<close>, or the index
  array made by \<^verbatim>\<open>filter_trajs\<close>. \<open>selected\<close> is \<^verbatim>\<open>np.arange(n)[data_slice]\<close>.
\<close>

datatype sel = Slice int int | Indices "nat list"

type_synonym segment = "string \<times> dataset \<times> sel \<times> real list"

definition selected :: "sel \<Rightarrow> nat \<Rightarrow> error + nat list" where
  "selected data_slice n =
     (case data_slice of
        Slice start stop \<Rightarrow> Inr (py_slice start stop [0..<n])
      | Indices is \<Rightarrow> if list_all (\<lambda>i. i < n) is then Inr is else Inl IndexError)"

text \<open>Lines 328--334.\<close>

definition bad_index :: error where
  "bad_index = RuntimeError [Str ''*INDEX* variable must have dimensions (frame, atom).'']"

definition get_index :: "arguments \<Rightarrow> dataset \<Rightarrow> error + variable option" where
  "get_index args idata =
     (case map_of (ds_variables idata) (index args) of
        None \<Rightarrow> Inr None
      | Some ix \<Rightarrow>
          if length (dimensions ix) = 2 \<and> dimensions ix ! 0 = FRAME_DIM
             \<and> dimensions ix ! 1 = ATOM_DIM
          then Inr (Some ix) else Inl bad_index)"

text \<open>Lines 348--355: the dimensions of a new variable that the output lacks.\<close>

fun create_dimensions ::
  "dataset \<Rightarrow> string list \<Rightarrow> (string \<times> nat option) list
     \<Rightarrow> error + (string \<times> nat option) list"
where
  "create_dimensions idata [] odims = Inr odims"
| "create_dimensions idata (dim_str # ds) odims =
     (if dim_str \<in> set (map fst odims) then create_dimensions idata ds odims
      else (case map_of (ds_dimensions idata) dim_str of
              None \<Rightarrow> Inl (KeyError dim_str)
            | Some (len, unlimited) \<Rightarrow>
                create_dimensions idata ds
                  (odims @ [(dim_str, if unlimited then None else Some len)])))"

text \<open>Lines 336--361: the first loop over the variables of a file.\<close>

fun create_variables ::
  "arguments \<Rightarrow> dataset \<Rightarrow> (string \<times> variable) list \<Rightarrow> odataset \<Rightarrow> error + odataset"
where
  "create_variables args idata [] odata = Inr odata"
| "create_variables args idata ((var_str, var) # vs) odata =
     (if var_str \<in> exclude_list args then create_variables args idata vs odata
      else if var_str \<in> set (map fst (o_variables odata))
      then create_variables args idata vs odata
      else if netcdf_format args = ''NETCDF4'' \<and> var_str \<in> set (map fst (ds_dimensions idata))
      then create_variables args idata vs odata
      else (case create_dimensions idata (dimensions var) (o_dimensions odata) of
              Inl e \<Rightarrow> Inl e
            | Inr odims \<Rightarrow>
                create_variables args idata vs
                  (odata\<lparr>o_dimensions := odims,
                         o_variables := o_variables odata
                           @ [(var_str, dtype var, dimensions var, ncattrs var)]\<rparr>)))"

text \<open>Lines 377--387: the data of one frame, reordered when the file has identifiers.\<close>

definition frame_data :: "arguments \<Rightarrow> variable option \<Rightarrow> variable \<Rightarrow> nat \<Rightarrow> error + nd" where
  "frame_data args ix var iframe =
     (case ix of
        None \<Rightarrow> Inr (rows var ! iframe)
      | Some ixv \<Rightarrow>
          if length (dimensions var) > 1 \<and> dimensions var ! 1 = ATOM_DIM
          then (case py_get (rows ixv) (int iframe) of
                  Inl e \<Rightarrow> Inl e
                | Inr ids \<Rightarrow> reorder (index_offset args) ids (rows var ! iframe))
          else Inr (rows var ! iframe))"

text \<open>Lines 374--388: \<^verbatim>\<open>for oframe, iframe in enumerate(...)\<close>.\<close>

fun copy_frames ::
  "arguments \<Rightarrow> variable option \<Rightarrow> string \<Rightarrow> variable \<Rightarrow> nat \<Rightarrow> nat \<Rightarrow> nat list
     \<Rightarrow> assign list \<Rightarrow> error + assign list"
where
  "copy_frames args ix var_str var cursor oframe [] ws = Inr ws"
| "copy_frames args ix var_str var cursor oframe (iframe # rest) ws =
     (case frame_data args ix var iframe of
        Inl e \<Rightarrow> Inl e
      | Inr var_data \<Rightarrow>
          copy_frames args ix var_str var cursor (Suc oframe) rest
            (ws @ [AssignFrame var_str (cursor + oframe) var_data]))"

text \<open>
  Lines 390--399: a variable whose first dimension is not the frame. When it differs
  from the one of the previous file, the arguments of the message are evaluated first,
  and \<^verbatim>\<open>trajfns\<close> is not a name of the module: it is a parameter of \<^verbatim>\<open>open_trajs\<close>.
\<close>

definition copy_per_file ::
  "dataset option \<Rightarrow> string \<Rightarrow> variable \<Rightarrow> assign list \<Rightarrow> error + assign list"
where
  "copy_per_file last_data var_str var ws =
     (case last_data of
        None \<Rightarrow> Inr (ws @ [AssignAll var_str (rows var)])
      | Some ld \<Rightarrow>
          (case map_of (ds_variables ld) var_str of
             None \<Rightarrow> Inr (ws @ [AssignAll var_str (rows var)])
           | Some lv \<Rightarrow>
               if rows lv = rows var then Inr ws else Inl (NameError ''trajfns'')))"

text \<open>
  Lines 363--399: the second loop over the variables of a file. \<^verbatim>\<open>var.dimensions[0]\<close> of a
  variable without dimensions raises IndexError.
\<close>

fun copy_variables ::
  "arguments \<Rightarrow> dataset \<Rightarrow> variable option \<Rightarrow> dataset option \<Rightarrow> sel \<Rightarrow> real list \<Rightarrow> nat
     \<Rightarrow> (string \<times> variable) list \<Rightarrow> assign list \<Rightarrow> error + assign list"
where
  "copy_variables args idata ix last_data data_slice time cursor [] ws = Inr ws"
| "copy_variables args idata ix last_data data_slice time cursor ((var_str, var) # vs) ws =
     (if var_str \<in> exclude_list args
      then copy_variables args idata ix last_data data_slice time cursor vs ws
      else if var_str \<in> set (map fst (ds_dimensions idata))
      then copy_variables args idata ix last_data data_slice time cursor vs ws
      else if dimensions var = [] then Inl IndexError
      else if dimensions var ! 0 = FRAME_DIM
      then if var_str = ''time''
           then copy_variables args idata ix last_data data_slice time cursor vs
                  (ws @ [AssignFrom var_str cursor time])
           else (case selected data_slice (length (rows var)) of
                   Inl e \<Rightarrow> Inl e
                 | Inr iframes \<Rightarrow>
                     (case copy_frames args ix var_str var cursor 0 iframes ws of
                        Inl e \<Rightarrow> Inl e
                      | Inr ws' \<Rightarrow>
                          copy_variables args idata ix last_data data_slice time cursor vs ws'))
      else (case copy_per_file last_data var_str var ws of
              Inl e \<Rightarrow> Inl e
            | Inr ws' \<Rightarrow>
                copy_variables args idata ix last_data data_slice time cursor vs ws'))"

text \<open>
  Lines 324--405: one file. The state is \<open>(odata, cursor, last_data)\<close>. \<^verbatim>\<open>time[-1]\<close> of
  line 402 raises IndexError for an empty \<open>time\<close>.
\<close>

type_synonym copy_state = "odataset \<times> nat \<times> dataset option"

definition copy_segment :: "arguments \<Rightarrow> segment \<Rightarrow> copy_state \<Rightarrow> error + copy_state" where
  "copy_segment args seg st =
     (case (seg, st) of ((trajfn, idata, data_slice, time), (odata, cursor, last_data)) \<Rightarrow>
      case get_index args idata of
        Inl e \<Rightarrow> Inl e
      | Inr ix \<Rightarrow>
      (case create_variables args idata (ds_variables idata) odata of
        Inl e \<Rightarrow> Inl e
      | Inr odata' \<Rightarrow>
      (case copy_variables args idata ix last_data data_slice time cursor
              (ds_variables idata) (o_assigns odata') of
        Inl e \<Rightarrow> Inl e
      | Inr ws \<Rightarrow>
          if time = [] then Inl IndexError
          else Inr (odata'\<lparr>o_assigns := ws\<rparr>, cursor + length time, Some idata))))"

fun copy_all :: "arguments \<Rightarrow> segment list \<Rightarrow> copy_state \<Rightarrow> error + copy_state" where
  "copy_all args [] st = Inr st"
| "copy_all args (seg # segs) st =
     (case copy_segment args seg st of
        Inl e \<Rightarrow> Inl e
      | Inr st' \<Rightarrow> copy_all args segs st')"

subsection \<open>The script\<close>

text \<open>
  Lines 296--408, after the command line is parsed: the result is the output file and
  the number of frames reported. Each Dataset is paired with its position in the file
  list, which tells the objects of two files apart in \<^verbatim>\<open>filter_trajs\<close>. The copy of the
  global attributes is left out.
\<close>

definition tag :: "dataset traj list \<Rightarrow> (nat \<times> dataset) traj list" where
  "tag trajs =
     map (\<lambda>(k, s). \<lparr>t_fn = t_fn s, t_data = (k, t_data s), t_test = t_test s, t_time = t_time s\<rparr>)
       (zip [0..<length trajs] trajs)"

definition segments_of ::
  "arguments \<Rightarrow> (nat \<times> dataset) entry list \<Rightarrow> error + segment list"
where
  "segments_of args idata_f =
     (case every args of
        None \<Rightarrow>
          Inr (map (\<lambda>(fn, (k, data), (start, stop), time). (fn, data, Slice start stop, time))
                 idata_f)
      | Some ev \<Rightarrow>
          (case filter_trajs idata_f ev of
             Inl e \<Rightarrow> Inl e
           | Inr f \<Rightarrow> Inr (map (\<lambda>(fn, (k, data), is, time). (fn, data, Indices is, time)) f)))"

definition new_dataset :: odataset where
  "new_dataset = \<lparr>o_dimensions = [], o_variables = [], o_assigns = []\<rparr>"

definition main :: "arguments \<Rightarrow> dataset traj list \<Rightarrow> error + (odataset \<times> nat)" where
  "main args trajs =
     (case open_trajs (test_var args = ''time'') (test_tol args) (tag trajs) of
        Inl e \<Rightarrow> Inl e
      | Inr idata_f \<Rightarrow>
      (case segments_of args idata_f of
        Inl e \<Rightarrow> Inl e
      | Inr segs \<Rightarrow>
      (case copy_all args segs (new_dataset, 0, None) of
        Inl e \<Rightarrow> Inl e
      | Inr (odata, cursor, last_data) \<Rightarrow> Inr (odata, cursor))))"

subsection \<open>The shape of the entries\<close>


section \<open>Properties\<close>

subsection \<open>The overlap test with a tolerance per element\<close>

text \<open>
  C1. The claim: a match at \<open>(first2, last1)\<close> is declared exactly when the absolute
  differences of frame \<open>last1\<close> of A and frame \<open>first2\<close> of B are within the tolerance,
  element by element for a tolerance vector. The code at a tolerance \<open>[1, 10]\<close>, A with
  frames \<open>[0, 5]\<close> and \<open>[100, 100]\<close>, B with the frame \<open>[0, 0]\<close>: frame 0 of A is within
  the tolerance of frame 0 of B element by element (the differences are \<open>0 \<le> 1\<close> and
  \<open>5 \<le> 10\<close>), as the comparison of line 132 finds; the backward scan of line 142
  compares the largest difference, 5, with every element of the tolerance, passes
  frame 0 by, and \<^verbatim>\<open>open_trajs\<close> raises the error of line 151.
\<close>

theorem vector_tolerance_scan_misses_match:
  "maxdiff_first (Vector [1, 10]) [0, 5] [0, 0] = Inr (Vector [0, 5])
   \<and> \<not> any_gt (Vector [0, 5]) (Vector [1, 10])
   \<and> find_overlap (Vector [1, 10]) [[0, 5], [100, 100]] [[0, 0]] None
       = Inr (0, Some (- 1), Vector [100, 100], Vector [5, 5])
   \<and> open_trajs False (Vector [1, 10])
        [\<lparr>t_fn = ''a.nc'', t_data = (), t_test = [[0, 5], [100, 100]], t_time = None\<rparr>,
         \<lparr>t_fn = ''b.nc'', t_data = (), t_test = [[0, 0]], t_time = None\<rparr>]
       = Inl (not_consecutive ''a.nc'' ''b.nc'' (Vector [5, 5]) (Vector [100, 100]))"
  by code_simp

subsection \<open>Per-file variables that differ\<close>

text \<open>
  C8. The claim: when a variable without the frame dimension differs from the one of
  the previous file, the run fails with an error that names the variable and the two
  files. The code: two files that agree on the overlapping frame and differ in the
  per-file variable \<open>mass\<close>; the run ends in a NameError for \<^verbatim>\<open>trajfns\<close>, raised while
  the arguments of the message of line 397 are evaluated.
\<close>

theorem per_file_mismatch_raises_NameError:
  "main
     \<lparr>every = None, test_var = ''coordinates'', test_tol = Scalar (1 / 1000000),
      netcdf_format = ''NETCDF3_64BIT'', exclude = None, index = ''id'', index_offset = - 1\<rparr>
     [\<lparr>t_fn = ''a.nc'',
       t_data = \<lparr>ds_dimensions = [(''frame'', 2, True), (''atom'', 1, False)],
                 ds_variables =
                   [(''coordinates'', \<lparr>dimensions = [''frame'', ''atom''], dtype = ''f8'',
                       ncattrs = [], rows = [Arr [RealV 0], Arr [RealV 1]]\<rparr>),
                    (''mass'', \<lparr>dimensions = [''atom''], dtype = ''f8'',
                       ncattrs = [], rows = [RealV 1]\<rparr>)]\<rparr>,
       t_test = [[0], [1]], t_time = None\<rparr>,
      \<lparr>t_fn = ''b.nc'',
       t_data = \<lparr>ds_dimensions = [(''frame'', 2, True), (''atom'', 1, False)],
                 ds_variables =
                   [(''coordinates'', \<lparr>dimensions = [''frame'', ''atom''], dtype = ''f8'',
                       ncattrs = [], rows = [Arr [RealV 1], Arr [RealV 2]]\<rparr>),
                    (''mass'', \<lparr>dimensions = [''atom''], dtype = ''f8'',
                       ncattrs = [], rows = [RealV 2]\<rparr>)]\<rparr>,
       t_test = [[1], [2]], t_time = None\<rparr>]
   = Inl (NameError ''trajfns'')"
  by code_simp

subsection \<open>Trusted files\<close>

lemma py_slice_to_end:
  "py_slice first1 (int n) [0..<n] = [nat (clip first1 (int n))..<n]"
proof -
  have "clip (int n) (int n) = int n" by (simp add: clip_def)
  moreover have "0 \<le> clip first1 (int n)" "clip first1 (int n) \<le> int n"
    by (auto simp: clip_def)
  ultimately show ?thesis
    by (simp add: py_slice_def Let_def drop_upt nat_diff_distrib')
qed

text \<open>
  C2. When the name of B starts with \<^verbatim>\<open>+\<close>, the search is not run: whatever the frames
  and the tolerance are, \<open>first2 = 0\<close> and \<open>last1\<close> is the number of frames of A's test
  variable; the entry made for A has the slice \<open>(first1, last1)\<close>, and that slice keeps
  every frame of A from \<open>first1\<close> to the last one.
\<close>

theorem trusted_segment_skips_search:
  assumes "t_fn s2 = CHR ''+'' # name"
  shows "overlap test_is_time tol s1 s2 last1
           = Inr (0, Some (int (length (t_test s1))), zeros_like tol,
                  broadcast2 (+) tol (Scalar 1000000000000))
       \<and> (\<forall>first1 lt f st'.
             pair_step test_is_time tol s1 s2 (first1, last1, lt, f) = Inr st' \<longrightarrow>
             (\<exists>lt' time. st' = (0, Some (int (length (t_test s1))), Some lt',
                 f @ [(t_fn s1, t_data s1, (first1, int (length (t_test s1))), time)])))
       \<and> (\<forall>first1. py_slice first1 (int (length (t_test s1))) [0..<length (t_test s1)]
             = [nat (clip first1 (int (length (t_test s1))))..<length (t_test s1)])"
proof -
  have ov: "overlap test_is_time tol s1 s2 last1
           = Inr (0, Some (int (length (t_test s1))), zeros_like tol,
                  broadcast2 (+) tol (Scalar 1000000000000))"
    using assms by (simp add: overlap_def)
  have "\<exists>lt' time. st' = (0, Some (int (length (t_test s1))), Some lt',
                 f @ [(t_fn s1, t_data s1, (first1, int (length (t_test s1))), time)])"
    if "pair_step test_is_time tol s1 s2 (first1, last1, lt, f) = Inr st'" for first1 lt f st'
    using that ov
    by (auto simp: pair_step_def split: sum.splits if_splits)
  with ov py_slice_to_end show ?thesis by blast
qed


theorem trusted_segment_skips_search_witness:
  "t_fn \<lparr>t_fn = ''+b.nc'', t_data = (), t_test = [[7], [8]], t_time = None\<rparr> = CHR ''+'' # ''b.nc''
   \<and> overlap False (Scalar (1 / 1000000))
        \<lparr>t_fn = ''a.nc'', t_data = (), t_test = [[0], [1], [2]], t_time = None\<rparr>
        \<lparr>t_fn = ''+b.nc'', t_data = (), t_test = [[7], [8]], t_time = None\<rparr> None
       = Inr (0, Some 3, Scalar 0, Scalar (1000000000000 + 1 / 1000000))
   \<and> pair_step False (Scalar (1 / 1000000))
        \<lparr>t_fn = ''a.nc'', t_data = (), t_test = [[0], [1], [2]], t_time = None\<rparr>
        \<lparr>t_fn = ''+b.nc'', t_data = (), t_test = [[7], [8]], t_time = None\<rparr>
        (0, None, None, [])
       = Inr (0, Some 3, Some 1, [(''a.nc'', (), (0, 3), [0, 1, 2])])
   \<and> py_slice 0 3 [0..<3] = [0, 1, 2]"
proof -
  let ?a = "\<lparr>t_fn = ''a.nc'', t_data = (), t_test = [[0], [1], [2]], t_time = None\<rparr>"
  let ?b = "\<lparr>t_fn = ''+b.nc'', t_data = (), t_test = [[7], [8]], t_time = None\<rparr>"
  have h: "t_fn ?b = CHR ''+'' # ''b.nc''" by simp
  have e: "pair_step False (Scalar (1 / 1000000)) ?a ?b (0, None, None, [])
       = Inr (0, Some 3, Some 1, [(''a.nc'', (), (0, 3), [0, 1, 2])])"
    by code_simp
  have s: "py_slice 0 3 [0..<3] = [0, 1, 2::nat]" by code_simp
  from trusted_segment_skips_search[OF h, of False "Scalar (1 / 1000000)" ?a None]
  have "overlap False (Scalar (1 / 1000000)) ?a ?b None
       = Inr (0, Some 3, Scalar 0, Scalar (1000000000000 + 1 / 1000000))"
    by simp
  with h e s show ?thesis by blast
qed

subsection \<open>Reordering by identifier\<close>

lemma scatter_ok:
  assumes "length idx = length vs" "\<forall>j\<in>set idx. 0 \<le> j \<and> j < int (length out)"
  shows "\<exists>out'. scatter idx vs out = Inr out' \<and> length out' = length out
          \<and> (distinct idx \<longrightarrow> (\<forall>k<length idx. out' ! nat (idx ! k) = vs ! k))
          \<and> (\<forall>p<length out. int p \<notin> set idx \<longrightarrow> out' ! p = out ! p)"
  using assms
proof (induction idx vs out rule: scatter.induct)
  case (1 out)
  then show ?case by simp
next
  case (2 i idx v var_data out)
  let ?out = "out[nat i := v]"
  from "2.prems" have i: "0 \<le> i" "i < int (length out)" by auto
  from "2.prems" have len: "length idx = length var_data" by simp
  from "2.prems" have rng: "\<forall>j\<in>set idx. 0 \<le> j \<and> j < int (length ?out)" by simp
  from i have c: "(if i < 0 then i + int (length out) else i) = i" by simp
  have nc: "\<not> ((if i < 0 then i + int (length out) else i) < 0
              \<or> int (length out) \<le> (if i < 0 then i + int (length out) else i))"
    using i by simp
  from "2.IH"[OF refl refl nc, unfolded c, OF len rng]
  obtain out' where o: "scatter idx var_data ?out = Inr out'" "length out' = length out"
    "distinct idx \<longrightarrow> (\<forall>k<length idx. out' ! nat (idx ! k) = var_data ! k)"
    "\<forall>p<length out. int p \<notin> set idx \<longrightarrow> out' ! p = ?out ! p"
    by (auto simp: Let_def)
  have eq: "scatter (i # idx) (v # var_data) out = Inr out'"
    using o(1) i by (simp add: Let_def)
  have "out' ! nat ((i # idx) ! k) = (v # var_data) ! k"
    if d: "distinct (i # idx)" and k: "k < length (i # idx)" for k
  proof (cases k)
    case 0
    from d have "int (nat i) \<notin> set idx" using i by simp
    with o(4) i have "out' ! nat i = ?out ! nat i" by (simp add: nat_less_iff)
    with 0 i show ?thesis by (simp add: nat_less_iff)
  next
    case (Suc k')
    with o(3) d k show ?thesis by simp
  qed
  moreover have "out' ! p = out ! p" if "p < length out" "int p \<notin> set (i # idx)" for p
  proof -
    from that have "out' ! p = ?out ! p" using o(4) by simp
    moreover from that i have "p \<noteq> nat i" by auto
    ultimately show ?thesis by simp
  qed
  ultimately show ?case using eq o(2) by blast
next
  case (3 v var_data out)
  then show ?case by simp
next
  case (4 i idx out)
  then show ?case by simp
qed

text \<open>
  C7. For a variable whose second dimension is the atom dimension, in a file with an
  identifier variable, the frame written is the frame read with row \<open>i\<close> moved to row
  \<open>identifier[i] + offset\<close>, when these rows are a permutation of the rows of the frame
  (the identifiers are distinct and every target row exists). With the identifiers
  \<open>[3, 1, 2]\<close> and the offset \<open>-1\<close>, rows 0, 1, 2 go to rows 2, 0, 1.
\<close>

theorem reorder_by_identifier:
  assumes dims: "length (dimensions var) > 1" "dimensions var ! 1 = ATOM_DIM"
    and ids: "iframe < length (rows ixv)" "rows ixv ! iframe = Arr (map IntV ids)"
    and dat: "rows var ! iframe = Arr vs" "length ids = length vs"
    and perm: "distinct ids"
      "\<forall>i\<in>set ids. 0 \<le> i + index_offset args \<and> i + index_offset args < int (length vs)"
  shows "(\<exists>out. frame_data args (Some ixv) var iframe = Inr (Arr out)
            \<and> length out = length vs
            \<and> (\<forall>i<length vs. out ! nat (ids ! i + index_offset args) = vs ! i))
       \<and> reorder (- 1) (Arr [IntV 3, IntV 1, IntV 2]) (Arr [r0, r1, r2]) = Inr (Arr [r1, r2, r0])"
proof -
  let ?idx = "map (\<lambda>i. i + index_offset args) ids"
  have 1: "ids_of (Arr (map IntV ids)) = Inr ids"
    by (simp add: ids_of_def list_all_iff comp_def)
  have "length ?idx = length vs" using dat by simp
  moreover have "\<forall>j\<in>set ?idx. 0 \<le> j \<and> j < int (length (map nd_zeros_like vs))"
    using perm(2) by auto
  ultimately obtain out where o: "scatter ?idx vs (map nd_zeros_like vs) = Inr out"
    "length out = length (map nd_zeros_like vs)"
    "distinct ?idx \<longrightarrow> (\<forall>k<length ?idx. out ! nat (?idx ! k) = vs ! k)"
    using scatter_ok by blast
  have "distinct ?idx" using perm(1) by (simp add: distinct_map inj_on_def)
  with o(3) dat have 3: "\<forall>i<length vs. out ! nat (ids ! i + index_offset args) = vs ! i"
    by simp
  have "frame_data args (Some ixv) var iframe = Inr (Arr out)"
    using dims ids dat 1 o(1) by (simp add: frame_data_def py_get_def reorder_def)
  moreover have "reorder (- 1) (Arr [IntV 3, IntV 1, IntV 2]) (Arr [r0, r1, r2]) = Inr (Arr [r1, r2, r0])"
    by (simp add: reorder_def ids_of_def)
  ultimately show ?thesis using o(2) 3 by auto
qed

theorem reorder_by_identifier_witness:
  "(\<exists>out. frame_data \<lparr>every = None, test_var = ''coordinates'', test_tol = Scalar 0,
        netcdf_format = ''NETCDF3_64BIT'', exclude = None, index = ''id'', index_offset = - 1\<rparr>
      (Some \<lparr>dimensions = [''frame'', ''atom''], dtype = ''i4'', ncattrs = [],
             rows = [Arr (map IntV [3, 1, 2])]\<rparr>)
      \<lparr>dimensions = [''frame'', ''atom''], dtype = ''f8'', ncattrs = [],
       rows = [Arr [RealV 30, RealV 10, RealV 20]]\<rparr> 0 = Inr (Arr out)
      \<and> length out = 3 \<and> out ! 2 = RealV 30 \<and> out ! 0 = RealV 10 \<and> out ! 1 = RealV 20)"
proof -
  let ?args = "\<lparr>every = None, test_var = ''coordinates'', test_tol = Scalar 0,
        netcdf_format = ''NETCDF3_64BIT'', exclude = None, index = ''id'', index_offset = - 1\<rparr>"
  let ?ix = "\<lparr>dimensions = [''frame'', ''atom''], dtype = ''i4'', ncattrs = [],
             rows = [Arr (map IntV [3, 1, 2])]\<rparr>"
  let ?var = "\<lparr>dimensions = [''frame'', ''atom''], dtype = ''f8'', ncattrs = [],
       rows = [Arr [RealV 30, RealV 10, RealV 20]]\<rparr>"
  have 1: "length (dimensions ?var) > 1" "dimensions ?var ! 1 = ATOM_DIM"
    by (simp_all add: ATOM_DIM_def)
  have 2: "0 < length (rows ?ix)" "rows ?ix ! 0 = Arr (map IntV [3, 1, 2])" by simp_all
  have 3: "rows ?var ! 0 = Arr [RealV 30, RealV 10, RealV 20]"
    "length [3, 1, 2::int] = length [RealV 30, RealV 10, RealV 20]" by simp_all
  have 4: "distinct [3, 1, 2::int]"
    "\<forall>i\<in>set [3, 1, 2::int]. 0 \<le> i + index_offset ?args
        \<and> i + index_offset ?args < int (length [RealV 30, RealV 10, RealV 20])"
    by simp_all
  from reorder_by_identifier[OF 1 2 3 4, THEN conjunct1]
  obtain out where o: "frame_data ?args (Some ?ix) ?var 0 = Inr (Arr out)"
    "length out = length [RealV 30, RealV 10, RealV 20]"
    "\<forall>i<length [RealV 30, RealV 10, RealV 20].
        out ! nat ([3, 1, 2] ! i + index_offset ?args) = [RealV 30, RealV 10, RealV 20] ! i"
    by blast
  from o(3)[rule_format, of 0] o(3)[rule_format, of 1] o(3)[rule_format, of 2]
  have "out ! 2 = RealV 30" "out ! 0 = RealV 10" "out ! 1 = RealV 20"
    by (simp_all add: eval_nat_numeral)
  moreover from o(2) have "length out = 3" by simp
  ultimately show ?thesis using o(1) by blast
qed

subsection \<open>The identifier variable is excluded\<close>

lemma create_variables_names:
  "create_variables args idata vs od = Inr od' \<Longrightarrow>
     set (map fst (o_variables od')) \<subseteq> set (map fst (o_variables od)) \<union> (fst ` set vs - exclude_list args)
     \<and> o_assigns od' = o_assigns od"
proof (induction vs arbitrary: od)
  case Nil
  then show ?case by simp
next
  case (Cons a vs)
  obtain var_str var where a: "a = (var_str, var)" by (cases a)
  from Cons.prems obtain od1 where
    1: "create_variables args idata vs od1 = Inr od'" and
    2: "set (map fst (o_variables od1)) \<subseteq> set (map fst (o_variables od)) \<union> ({var_str} - exclude_list args)"
       "o_assigns od1 = o_assigns od"
    unfolding a by (auto split: if_splits sum.splits)
  from Cons.IH[OF 1] 2 show ?case unfolding a by (simp; blast)
qed

lemma copy_frames_vars:
  "copy_frames args ix v var c k iframes ws = Inr ws' \<Longrightarrow>
     assign_var ` set ws' \<subseteq> assign_var ` set ws \<union> {v}"
proof (induction iframes arbitrary: k ws)
  case Nil
  then show ?case by auto
next
  case (Cons i iframes)
  from Cons.prems obtain d where
    "copy_frames args ix v var c (Suc k) iframes (ws @ [AssignFrame v (c + k) d]) = Inr ws'"
    by (auto split: sum.splits)
  from Cons.IH[OF this] show ?case by auto
qed

lemma copy_per_file_vars:
  "copy_per_file ld v var ws = Inr ws' \<Longrightarrow>
     assign_var ` set ws' \<subseteq> assign_var ` set ws \<union> {v}"
  by (auto simp: copy_per_file_def split: option.splits if_splits)

lemma copy_variables_vars:
  "copy_variables args idata ix ld sl tm c vs ws = Inr ws' \<Longrightarrow>
     assign_var ` set ws' \<subseteq> assign_var ` set ws \<union> (fst ` set vs - exclude_list args)"
proof (induction vs arbitrary: ws)
  case Nil
  then show ?case by simp
next
  case (Cons a vs)
  obtain var_str var where a: "a = (var_str, var)" by (cases a)
  show ?case
  proof (cases "var_str \<in> exclude_list args \<or> var_str \<in> set (map fst (ds_dimensions idata))")
    case True
    with Cons.prems have "copy_variables args idata ix ld sl tm c vs ws = Inr ws'"
      unfolding a by (auto split: if_splits)
    from Cons.IH[OF this] show ?thesis by auto
  next
    case False
    with Cons.prems obtain ws1 where
      1: "copy_variables args idata ix ld sl tm c vs ws1 = Inr ws'" and
      2: "assign_var ` set ws1 \<subseteq> assign_var ` set ws \<union> {var_str}"
      unfolding a
      by (auto split: if_splits sum.splits dest: copy_frames_vars copy_per_file_vars)
    from Cons.IH[OF 1] 2 False show ?thesis unfolding a by auto
  qed
qed

lemma copy_segment_names:
  assumes "copy_segment args seg (od, c, ld) = Inr (od', c', ld')"
  shows "set (map fst (o_variables od')) \<subseteq> set (map fst (o_variables od)) \<union> - exclude_list args"
    and "assign_var ` set (o_assigns od') \<subseteq> assign_var ` set (o_assigns od) \<union> - exclude_list args"
proof -
  obtain fn idata sl tm where seg: "seg = (fn, idata, sl, tm)" by (cases seg)
  from assms obtain ix od1 ws where
    1: "create_variables args idata (ds_variables idata) od = Inr od1" and
    2: "copy_variables args idata ix ld sl tm c (ds_variables idata) (o_assigns od1) = Inr ws" and
    3: "od' = od1\<lparr>o_assigns := ws\<rparr>"
    unfolding seg copy_segment_def by (auto split: sum.splits if_splits)
  from create_variables_names[OF 1] 3
  show "set (map fst (o_variables od')) \<subseteq> set (map fst (o_variables od)) \<union> - exclude_list args"
    by auto
  from create_variables_names[OF 1] copy_variables_vars[OF 2] 3
  show "assign_var ` set (o_assigns od') \<subseteq> assign_var ` set (o_assigns od) \<union> - exclude_list args"
    by auto
qed

lemma copy_all_names:
  "copy_all args segs (od, c, ld) = Inr (od', c', ld') \<Longrightarrow>
     set (map fst (o_variables od')) \<subseteq> set (map fst (o_variables od)) \<union> - exclude_list args
     \<and> assign_var ` set (o_assigns od') \<subseteq> assign_var ` set (o_assigns od) \<union> - exclude_list args"
proof (induction segs arbitrary: od c ld)
  case Nil
  then show ?case by auto
next
  case (Cons seg segs)
  from Cons.prems obtain od1 c1 ld1 where
    1: "copy_segment args seg (od, c, ld) = Inr (od1, c1, ld1)" and
    2: "copy_all args segs (od1, c1, ld1) = Inr (od', c', ld')"
    by (auto split: sum.splits)
  from copy_segment_names[OF 1] Cons.IH[OF 2] show ?case by blast
qed

lemma index_excluded: "index args \<in> exclude_list args"
  by (simp add: exclude_list_def split: option.splits)

text \<open>
  C10. The identifier variable is always in the exclude list, with or without an
  \<^verbatim>\<open>--exclude\<close> option, and a run that ends leaves an output file in which no variable
  of that name has been created and to which no assignment of that name has been made.
\<close>

theorem index_variable_never_in_output:
  "index args \<in> exclude_list args
   \<and> (\<forall>trajs odata n. main args trajs = Inr (odata, n) \<longrightarrow>
         index args \<notin> set (map fst (o_variables odata))
         \<and> index args \<notin> assign_var ` set (o_assigns odata))"
proof -
  have "index args \<notin> set (map fst (o_variables odata))
         \<and> index args \<notin> assign_var ` set (o_assigns odata)"
    if "main args trajs = Inr (odata, n)" for trajs odata n
  proof -
    from that obtain segs ld where
      "copy_all args segs (new_dataset, 0, None) = Inr (odata, n, ld)"
      by (auto simp: main_def split: sum.splits)
    from copy_all_names[OF this] index_excluded[of args] show ?thesis
      by (auto simp: new_dataset_def)
  qed
  with index_excluded show ?thesis by blast
qed

theorem index_variable_never_in_output_witness:
  "index \<lparr>every = None, test_var = ''coordinates'', test_tol = Scalar (1 / 1000000),
      netcdf_format = ''NETCDF3_64BIT'', exclude = None, index = ''id'', index_offset = - 1\<rparr>
     \<in> exclude_list \<lparr>every = None, test_var = ''coordinates'', test_tol = Scalar (1 / 1000000),
      netcdf_format = ''NETCDF3_64BIT'', exclude = None, index = ''id'', index_offset = - 1\<rparr>
   \<and> main
     \<lparr>every = None, test_var = ''coordinates'', test_tol = Scalar (1 / 1000000),
      netcdf_format = ''NETCDF3_64BIT'', exclude = None, index = ''id'', index_offset = - 1\<rparr>
     [\<lparr>t_fn = ''a.nc'',
       t_data = \<lparr>ds_dimensions = [(''frame'', 2, True), (''atom'', 2, False)],
                 ds_variables =
                   [(''id'', \<lparr>dimensions = [''frame'', ''atom''], dtype = ''i4'',
                       ncattrs = [], rows = [Arr [IntV 2, IntV 1], Arr [IntV 1, IntV 2]]\<rparr>),
                    (''coordinates'', \<lparr>dimensions = [''frame'', ''atom''], dtype = ''f8'',
                       ncattrs = [], rows = [Arr [RealV 5, RealV 0], Arr [RealV 1, RealV 6]]\<rparr>)]\<rparr>,
       t_test = [[5, 0], [1, 6]], t_time = None\<rparr>]
    = Inr (\<lparr>o_dimensions = [(''frame'', None), (''atom'', Some 2)],
            o_variables = [(''coordinates'', ''f8'', [''frame'', ''atom''], [])],
            o_assigns = [AssignFrame ''coordinates'' 0 (Arr [RealV 0, RealV 5]),
                         AssignFrame ''coordinates'' 1 (Arr [RealV 1, RealV 6])]\<rparr>, 2)
   \<and> ''id'' \<notin> set (map fst [(''coordinates'', ''f8'', [''frame'', ''atom''], [])])
   \<and> ''id'' \<notin> assign_var ` set [AssignFrame ''coordinates'' 0 (Arr [RealV 0, RealV 5]),
                         AssignFrame ''coordinates'' 1 (Arr [RealV 1, RealV 6])]"
proof -
  let ?args = "\<lparr>every = None, test_var = ''coordinates'', test_tol = Scalar (1 / 1000000),
      netcdf_format = ''NETCDF3_64BIT'', exclude = None, index = ''id'', index_offset = - 1\<rparr>"
  let ?trajs = "[\<lparr>t_fn = ''a.nc'',
       t_data = \<lparr>ds_dimensions = [(''frame'', 2, True), (''atom'', 2, False)],
                 ds_variables =
                   [(''id'', \<lparr>dimensions = [''frame'', ''atom''], dtype = ''i4'',
                       ncattrs = [], rows = [Arr [IntV 2, IntV 1], Arr [IntV 1, IntV 2]]\<rparr>),
                    (''coordinates'', \<lparr>dimensions = [''frame'', ''atom''], dtype = ''f8'',
                       ncattrs = [], rows = [Arr [RealV 5, RealV 0], Arr [RealV 1, RealV 6]]\<rparr>)]\<rparr>,
       t_test = [[5, 0], [1, 6]], t_time = None\<rparr>]"
  let ?od = "\<lparr>o_dimensions = [(''frame'', None), (''atom'', Some 2)],
            o_variables = [(''coordinates'', ''f8'', [''frame'', ''atom''], [])],
            o_assigns = [AssignFrame ''coordinates'' 0 (Arr [RealV 0, RealV 5]),
                         AssignFrame ''coordinates'' 1 (Arr [RealV 1, RealV 6])]\<rparr>"
  have run: "main ?args ?trajs = Inr (?od, 2)" by code_simp
  from index_variable_never_in_output[of ?args] run
  have "index ?args \<in> exclude_list ?args"
    "index ?args \<notin> set (map fst (o_variables ?od))"
    "index ?args \<notin> assign_var ` set (o_assigns ?od)"
    by blast+
  with run show ?thesis by simp
qed

subsection \<open>The cursor of the copy loop\<close>

lemma frame_positions_append:
  "frame_positions v (a @ b) = frame_positions v a @ frame_positions v b"
  by (induction v a rule: frame_positions.induct) auto

lemma from_positions_append:
  "from_positions (a @ b) = from_positions a @ from_positions b"
  by (induction a rule: from_positions.induct) auto

lemma copy_frames_positions:
  "copy_frames args ix v var c k iframes ws = Inr ws' \<Longrightarrow>
     \<exists>new. ws' = ws @ new
       \<and> frame_positions v new = [c + k..<c + k + length iframes]
       \<and> (\<forall>u. u \<noteq> v \<longrightarrow> frame_positions u new = [])
       \<and> from_positions new = []"
proof (induction iframes arbitrary: k ws)
  case Nil
  then show ?case by auto
next
  case (Cons i iframes)
  from Cons.prems obtain d where
    "copy_frames args ix v var c (Suc k) iframes (ws @ [AssignFrame v (c + k) d]) = Inr ws'"
    by (auto split: sum.splits)
  from Cons.IH[OF this] obtain new where new:
    "ws' = (ws @ [AssignFrame v (c + k) d]) @ new"
    "frame_positions v new = [c + Suc k..<c + Suc k + length iframes]"
    "\<forall>u. u \<noteq> v \<longrightarrow> frame_positions u new = []"
    "from_positions new = []"
    by blast
  let ?new = "AssignFrame v (c + k) d # new"
  have "ws' = ws @ ?new" using new(1) by simp
  moreover have "frame_positions v ?new = [c + k..<c + k + length (i # iframes)]"
    using new(2) by (simp add: upt_rec)
  moreover have "\<forall>u. u \<noteq> v \<longrightarrow> frame_positions u ?new = []" using new(3) by simp
  moreover have "from_positions ?new = []" using new(4) by simp
  ultimately show ?case by blast
qed

lemma copy_per_file_positions:
  "copy_per_file ld v var ws = Inr ws' \<Longrightarrow>
     \<exists>new. ws' = ws @ new \<and> (\<forall>u. frame_positions u new = []) \<and> from_positions new = []"
  by (auto simp: copy_per_file_def split: option.splits if_splits)

lemma copy_variables_positions:
  "distinct (map fst vs) \<Longrightarrow>
   copy_variables args idata ix ld sl tm c vs ws = Inr ws' \<Longrightarrow>
     \<exists>new. ws' = ws @ new
       \<and> (\<forall>v. frame_positions v new = [c..<c + length (frame_positions v new)])
       \<and> (\<forall>v. v \<notin> fst ` set vs \<longrightarrow> frame_positions v new = [])
       \<and> (\<forall>p\<in>set (from_positions new). p = c)"
proof (induction vs arbitrary: ws)
  case Nil
  then show ?case by auto
next
  case (Cons a vs)
  obtain var_str var where a: "a = (var_str, var)" by (cases a)
  from Cons.prems(1) have d: "distinct (map fst vs)" and nin: "var_str \<notin> fst ` set vs"
    unfolding a by auto
  have e0: "\<exists>m. ([]::nat list) = [c..<c + m]" by (rule exI[of _ 0]) simp
  have "\<exists>new1 ws1. ws1 = ws @ new1
      \<and> copy_variables args idata ix ld sl tm c vs ws1 = Inr ws'
      \<and> (\<exists>m. frame_positions var_str new1 = [c..<c + m])
      \<and> (\<forall>u. u \<noteq> var_str \<longrightarrow> frame_positions u new1 = [])
      \<and> (\<forall>p\<in>set (from_positions new1). p = c)"
  proof (cases "var_str \<in> exclude_list args \<or> var_str \<in> set (map fst (ds_dimensions idata))")
    case True
    with Cons.prems(2) have "copy_variables args idata ix ld sl tm c vs ws = Inr ws'"
      unfolding a by (auto split: if_splits)
    then have "ws = ws @ [] \<and> copy_variables args idata ix ld sl tm c vs ws = Inr ws'
      \<and> (\<exists>m. frame_positions var_str [] = [c..<c + m])
      \<and> (\<forall>u. u \<noteq> var_str \<longrightarrow> frame_positions u [] = [])
      \<and> (\<forall>p\<in>set (from_positions []). p = c)" using e0 by auto
    then show ?thesis by blast
  next
    case False
    note nex = this
    from Cons.prems(2) nex have ne: "dimensions var \<noteq> []"
      unfolding a by (auto split: if_splits)
    show ?thesis
    proof (cases "dimensions var ! 0 = FRAME_DIM")
      case fr: True
      show ?thesis
      proof (cases "var_str = ''time''")
        case True
        with Cons.prems(2) nex ne fr
        have "copy_variables args idata ix ld sl tm c vs (ws @ [AssignFrom var_str c tm]) = Inr ws'"
          unfolding a by (auto split: if_splits)
        then have "ws @ [AssignFrom var_str c tm] = ws @ [AssignFrom var_str c tm]
          \<and> copy_variables args idata ix ld sl tm c vs (ws @ [AssignFrom var_str c tm]) = Inr ws'
          \<and> (\<exists>m. frame_positions var_str [AssignFrom var_str c tm] = [c..<c + m])
          \<and> (\<forall>u. u \<noteq> var_str \<longrightarrow> frame_positions u [AssignFrom var_str c tm] = [])
          \<and> (\<forall>p\<in>set (from_positions [AssignFrom var_str c tm]). p = c)" using e0 by auto
        then show ?thesis by blast
      next
        case False
        with Cons.prems(2) nex ne fr obtain iframes ws1 where
          1: "copy_frames args ix var_str var c 0 iframes ws = Inr ws1" and
          2: "copy_variables args idata ix ld sl tm c vs ws1 = Inr ws'"
          unfolding a by (auto split: if_splits sum.splits)
        from copy_frames_positions[OF 1] obtain new1 where
          "ws1 = ws @ new1" "frame_positions var_str new1 = [c + 0..<c + 0 + length iframes]"
          "\<forall>u. u \<noteq> var_str \<longrightarrow> frame_positions u new1 = []" "from_positions new1 = []"
          by blast
        with 2 show ?thesis by auto
      qed
    next
      case False
      with Cons.prems(2) nex ne obtain ws1 where
        1: "copy_per_file ld var_str var ws = Inr ws1" and
        2: "copy_variables args idata ix ld sl tm c vs ws1 = Inr ws'"
        unfolding a by (auto split: if_splits sum.splits)
      from copy_per_file_positions[OF 1] obtain new1 where
        "ws1 = ws @ new1" "\<forall>u. frame_positions u new1 = []" "from_positions new1 = []"
        by blast
      with 2 have "ws1 = ws @ new1 \<and> copy_variables args idata ix ld sl tm c vs ws1 = Inr ws'
          \<and> (\<exists>m. frame_positions var_str new1 = [c..<c + m])
          \<and> (\<forall>u. u \<noteq> var_str \<longrightarrow> frame_positions u new1 = [])
          \<and> (\<forall>p\<in>set (from_positions new1). p = c)" using e0 by auto
      then show ?thesis by blast
    qed
  qed
  then obtain new1 m where n1:
    "copy_variables args idata ix ld sl tm c vs (ws @ new1) = Inr ws'"
    "frame_positions var_str new1 = [c..<c + m]"
    "\<forall>u. u \<noteq> var_str \<longrightarrow> frame_positions u new1 = []"
    "\<forall>p\<in>set (from_positions new1). p = c"
    by blast
  from Cons.IH[OF d n1(1)] obtain new2 where n2:
    "ws' = (ws @ new1) @ new2"
    "\<forall>v. frame_positions v new2 = [c..<c + length (frame_positions v new2)]"
    "\<forall>v. v \<notin> fst ` set vs \<longrightarrow> frame_positions v new2 = []"
    "\<forall>p\<in>set (from_positions new2). p = c"
    by blast
  let ?new = "new1 @ new2"
  have "ws' = ws @ ?new" using n2(1) by simp
  moreover have "frame_positions v ?new = [c..<c + length (frame_positions v ?new)]" for v
  proof (cases "v = var_str")
    case True
    with n2(3) nin have "frame_positions v new2 = []" by blast
    with True n1(2) show ?thesis by (simp add: frame_positions_append)
  next
    case False
    with n1(3) have "frame_positions v new1 = []" by blast
    with n2(2) show ?thesis by (simp add: frame_positions_append)
  qed
  moreover have "frame_positions v ?new = []" if "v \<notin> fst ` set (a # vs)" for v
    using that n1(3) n2(3) unfolding a by (simp add: frame_positions_append)
  moreover have "\<forall>p\<in>set (from_positions ?new). p = c"
    using n1(4) n2(4) by (auto simp: from_positions_append)
  ultimately show ?case by blast
qed

lemma copy_segment_positions:
  assumes "copy_segment args (fn, idata, sl, tm) (od, c, ld) = Inr (od', c', ld')"
    and "distinct (map fst (ds_variables idata))"
  shows "c' = c + length tm \<and> (\<exists>new. o_assigns od' = o_assigns od @ new
       \<and> (\<forall>v. frame_positions v new = [c..<c + length (frame_positions v new)])
       \<and> (\<forall>p\<in>set (from_positions new). p = c))"
proof -
  from assms(1) obtain ix od1 ws where
    1: "create_variables args idata (ds_variables idata) od = Inr od1" and
    2: "copy_variables args idata ix ld sl tm c (ds_variables idata) (o_assigns od1) = Inr ws" and
    3: "od' = od1\<lparr>o_assigns := ws\<rparr>" "c' = c + length tm"
    unfolding copy_segment_def by (auto split: sum.splits if_splits)
  from create_variables_names[OF 1] have "o_assigns od1 = o_assigns od" by simp
  with copy_variables_positions[OF assms(2) 2] 3 show ?thesis by auto
qed

lemma copy_all_take:
  "copy_all args segs st = Inr st' \<Longrightarrow> k < length segs \<Longrightarrow>
     \<exists>st1 st2. copy_all args (take k segs) st = Inr st1
        \<and> copy_segment args (segs ! k) st1 = Inr st2"
proof (induction segs arbitrary: k st)
  case Nil
  then show ?case by simp
next
  case (Cons seg segs)
  from Cons.prems(1) obtain st1 where
    1: "copy_segment args seg st = Inr st1" and 2: "copy_all args segs st1 = Inr st'"
    by (auto split: sum.splits)
  show ?case
  proof (cases k)
    case 0
    with 1 show ?thesis by (intro exI[of _ st] exI[of _ st1]) simp
  next
    case (Suc k')
    with Cons.prems(2) have "k' < length segs" by simp
    from Cons.IH[OF 2 this] obtain sa sb where
      "copy_all args (take k' segs) st1 = Inr sa" "copy_segment args (segs ! k') sa = Inr sb"
      by blast
    with 1 Suc show ?thesis by (intro exI[of _ sa] exI[of _ sb]) simp
  qed
qed

lemma copy_all_cursor:
  "copy_all args segs (od, c, ld) = Inr (od', c', ld') \<Longrightarrow>
     c' = c + sum_list (map (\<lambda>(fn, idata, sl, tm). length tm) segs)"
proof (induction segs arbitrary: od c ld)
  case Nil
  then show ?case by simp
next
  case (Cons seg segs)
  obtain fn idata sl tm where seg: "seg = (fn, idata, sl, tm)" by (cases seg)
  from Cons.prems obtain od1 c1 ld1 where
    1: "copy_segment args seg (od, c, ld) = Inr (od1, c1, ld1)" and
    2: "copy_all args segs (od1, c1, ld1) = Inr (od', c', ld')"
    by (auto split: sum.splits)
  from 1 have "c1 = c + length tm"
    unfolding seg copy_segment_def by (auto split: sum.splits if_splits)
  with Cons.IH[OF 2] show ?case unfolding seg by simp
qed

text \<open>
  C9. After a run of the copy loop that ends, \<open>cursor\<close> is the sum of the lengths of the
  \<open>time\<close> arrays of all files. The \<open>k\<close>-th file is copied from a state whose cursor is
  the sum of the lengths of the \<open>time\<close> arrays of the files before it; among the
  assignments made for it, every slice of times starts at that cursor, and the frames
  of each variable go to that cursor and the positions that follow it, one after the
  other. The variables of a file are the keys of a dictionary, hence distinct.
\<close>

theorem cursor_is_sum_of_time_lengths:
  assumes run: "copy_all args segs (new_dataset, 0, None) = Inr (odata, cursor, last_data)"
    and keys: "list_all (\<lambda>(fn, idata, sl, tm). distinct (map fst (ds_variables idata))) segs"
  shows "cursor = sum_list (map (\<lambda>(fn, idata, sl, tm). length tm) segs)
     \<and> (\<forall>k<length segs. \<exists>od ld od' ld' new.
           copy_all args (take k segs) (new_dataset, 0, None)
             = Inr (od, sum_list (map (\<lambda>(fn, idata, sl, tm). length tm) (take k segs)), ld)
           \<and> copy_segment args (segs ! k)
               (od, sum_list (map (\<lambda>(fn, idata, sl, tm). length tm) (take k segs)), ld)
             = Inr (od', sum_list (map (\<lambda>(fn, idata, sl, tm). length tm) (take (Suc k) segs)), ld')
           \<and> o_assigns od' = o_assigns od @ new
           \<and> (\<forall>v. frame_positions v new
                 = [sum_list (map (\<lambda>(fn, idata, sl, tm). length tm) (take k segs))
                    ..<sum_list (map (\<lambda>(fn, idata, sl, tm). length tm) (take k segs))
                       + length (frame_positions v new)])
           \<and> (\<forall>p\<in>set (from_positions new).
                 p = sum_list (map (\<lambda>(fn, idata, sl, tm). length tm) (take k segs))))"
proof -
  let ?len = "\<lambda>(fn, idata, sl, tm). length (tm :: real list)"
  let ?off = "\<lambda>k. sum_list (map (\<lambda>(fn :: string, idata :: dataset, sl :: sel, tm). length (tm :: real list)) (take k segs))"
  from copy_all_cursor[OF run] have total: "cursor = ?off (length segs)" by simp
  have step: "\<exists>od ld od' ld' new.
           copy_all args (take k segs) (new_dataset, 0, None) = Inr (od, ?off k, ld)
           \<and> copy_segment args (segs ! k) (od, ?off k, ld) = Inr (od', ?off (Suc k), ld')
           \<and> o_assigns od' = o_assigns od @ new
           \<and> (\<forall>v. frame_positions v new = [?off k..<?off k + length (frame_positions v new)])
           \<and> (\<forall>p\<in>set (from_positions new). p = ?off k)"
    if k: "k < length segs" for k
  proof -
    from copy_all_take[OF run k] obtain od c ld od' c' ld' where
      1: "copy_all args (take k segs) (new_dataset, 0, None) = Inr (od, c, ld)" and
      2: "copy_segment args (segs ! k) (od, c, ld) = Inr (od', c', ld')"
      by (metis prod_cases3)
    from copy_all_cursor[OF 1] have c: "c = ?off k" by simp
    obtain fn idata sl tm where seg: "segs ! k = (fn, idata, sl, tm)" by (cases "segs ! k")
    from keys k seg have "distinct (map fst (ds_variables idata))"
      by (auto simp: list_all_length)
    from copy_segment_positions[OF 2[unfolded seg] this] obtain new where
      3: "c' = c + length tm" "o_assigns od' = o_assigns od @ new"
      "\<forall>v. frame_positions v new = [c..<c + length (frame_positions v new)]"
      "\<forall>p\<in>set (from_positions new). p = c"
      by blast
    from k seg have "?off (Suc k) = ?off k + length tm"
      by (simp add: take_Suc_conv_app_nth)
    with 3(1) c have c': "c' = ?off (Suc k)" by simp
    from 1 2 3 show ?thesis unfolding c c' by blast
  qed
  from total step show ?thesis by simp
qed

theorem cursor_is_sum_of_time_lengths_witness:
  "copy_all
     \<lparr>every = None, test_var = ''coordinates'', test_tol = Scalar (1 / 1000000),
      netcdf_format = ''NETCDF3_64BIT'', exclude = None, index = ''id'', index_offset = - 1\<rparr>
     [(''a.nc'',
       \<lparr>ds_dimensions = [(''frame'', 2, True), (''atom'', 1, False)],
        ds_variables =
          [(''time'', \<lparr>dimensions = [''frame''], dtype = ''f8'', ncattrs = [],
              rows = [RealV 0, RealV 1]\<rparr>),
           (''coordinates'', \<lparr>dimensions = [''frame'', ''atom''], dtype = ''f8'',
              ncattrs = [], rows = [Arr [RealV 0], Arr [RealV 1]]\<rparr>)]\<rparr>,
       Slice 0 1, [0]),
      (''b.nc'',
       \<lparr>ds_dimensions = [(''frame'', 2, True), (''atom'', 1, False)],
        ds_variables =
          [(''time'', \<lparr>dimensions = [''frame''], dtype = ''f8'', ncattrs = [],
              rows = [RealV 0, RealV 1]\<rparr>),
           (''coordinates'', \<lparr>dimensions = [''frame'', ''atom''], dtype = ''f8'',
              ncattrs = [], rows = [Arr [RealV 1], Arr [RealV 2]]\<rparr>)]\<rparr>,
       Slice 0 2, [0, 1])]
     (new_dataset, 0, None)
   = Inr (\<lparr>o_dimensions = [(''frame'', None), (''atom'', Some 1)],
           o_variables = [(''time'', ''f8'', [''frame''], []),
                          (''coordinates'', ''f8'', [''frame'', ''atom''], [])],
           o_assigns = [AssignFrom ''time'' 0 [0],
                        AssignFrame ''coordinates'' 0 (Arr [RealV 0]),
                        AssignFrom ''time'' 1 [0, 1],
                        AssignFrame ''coordinates'' 1 (Arr [RealV 1]),
                        AssignFrame ''coordinates'' 2 (Arr [RealV 2])]\<rparr>,
          3,
          Some \<lparr>ds_dimensions = [(''frame'', 2, True), (''atom'', 1, False)],
             ds_variables =
               [(''time'', \<lparr>dimensions = [''frame''], dtype = ''f8'', ncattrs = [],
                   rows = [RealV 0, RealV 1]\<rparr>),
                (''coordinates'', \<lparr>dimensions = [''frame'', ''atom''], dtype = ''f8'',
                   ncattrs = [], rows = [Arr [RealV 1], Arr [RealV 2]]\<rparr>)]\<rparr>)
   \<and> (3::nat) = length [0::real] + length [0, 1::real]"
proof -
  let ?args = "\<lparr>every = None, test_var = ''coordinates'', test_tol = Scalar (1 / 1000000),
      netcdf_format = ''NETCDF3_64BIT'', exclude = None, index = ''id'', index_offset = - 1\<rparr>"
  let ?a = "\<lparr>ds_dimensions = [(''frame'', 2, True), (''atom'', 1, False)],
        ds_variables =
          [(''time'', \<lparr>dimensions = [''frame''], dtype = ''f8'', ncattrs = [],
              rows = [RealV 0, RealV 1]\<rparr>),
           (''coordinates'', \<lparr>dimensions = [''frame'', ''atom''], dtype = ''f8'',
              ncattrs = [], rows = [Arr [RealV 0], Arr [RealV 1]]\<rparr>)]\<rparr>"
  let ?b = "\<lparr>ds_dimensions = [(''frame'', 2, True), (''atom'', 1, False)],
        ds_variables =
          [(''time'', \<lparr>dimensions = [''frame''], dtype = ''f8'', ncattrs = [],
              rows = [RealV 0, RealV 1]\<rparr>),
           (''coordinates'', \<lparr>dimensions = [''frame'', ''atom''], dtype = ''f8'',
              ncattrs = [], rows = [Arr [RealV 1], Arr [RealV 2]]\<rparr>)]\<rparr>"
  let ?segs = "[(''a.nc'', ?a, Slice 0 1, [0::real]), (''b.nc'', ?b, Slice 0 2, [0, 1])]"
  let ?od = "\<lparr>o_dimensions = [(''frame'', None), (''atom'', Some 1)],
           o_variables = [(''time'', ''f8'', [''frame''], []),
                          (''coordinates'', ''f8'', [''frame'', ''atom''], [])],
           o_assigns = [AssignFrom ''time'' 0 [0],
                        AssignFrame ''coordinates'' 0 (Arr [RealV 0]),
                        AssignFrom ''time'' 1 [0, 1],
                        AssignFrame ''coordinates'' 1 (Arr [RealV 1]),
                        AssignFrame ''coordinates'' 2 (Arr [RealV 2])]\<rparr>"
  have run: "copy_all ?args ?segs (new_dataset, 0, None) = Inr (?od, 3, Some ?b)"
    by code_simp
  have keys: "list_all (\<lambda>(fn, idata, sl, tm). distinct (map fst (ds_variables idata))) ?segs"
    by simp
  from cursor_is_sum_of_time_lengths[OF run keys]
  have "(3::nat) = sum_list (map (\<lambda>(fn, idata, sl, tm). length tm) ?segs)" by blast
  then have "(3::nat) = length [0::real] + length [0, 1::real]" by simp
  with run show ?thesis by blast
qed

subsection \<open>The frames chosen by get\_nearest\_indices\<close>










subsection \<open>Where the overlap search can end\<close>






subsection \<open>Corrected times at a join\<close>

















subsection \<open>The whole timeline\<close>










subsection \<open>A pair without a matching frame\<close>













end
